theory Spec2Isabelle
  imports Main
begin

section \<open>Strings\<close>

text \<open>
  JavaScript strings are modelled as \<open>string\<close>. \<open>String.prototype.includes\<close> is a
  case-sensitive search for a contiguous substring; \<open>toLowerCase\<close> is modelled on the
  ASCII letters, which is all an address (\<open>0x\<close> followed by hexadecimal digits) contains.
\<close>

fun startsWith :: "string \<Rightarrow> string \<Rightarrow> bool" where
  "startsWith s [] = True"
| "startsWith [] (c # sub) = False"
| "startsWith (d # s) (c # sub) = (d = c \<and> startsWith s sub)"

fun includes_str :: "string \<Rightarrow> string \<Rightarrow> bool" where
  "includes_str [] sub = (sub = [])"
| "includes_str (d # s) sub = (startsWith (d # s) sub \<or> includes_str s sub)"

definition lowerChar :: "char \<Rightarrow> char" where
  "lowerChar c =
     (case List.find (\<lambda>p. fst p = c) (zip ''ABCDEFGHIJKLMNOPQRSTUVWXYZ'' ''abcdefghijklmnopqrstuvwxyz'') of
        Some p \<Rightarrow> snd p
      | None \<Rightarrow> c)"

definition toLowerCase :: "string \<Rightarrow> string" where
  "toLowerCase s = map lowerChar s"

section \<open>Thrown values and the error classifier\<close>

text \<open>
  A thrown value is either an \<open>Error\<close> object, of which the code reads the message only,
  or any other value (\<open>error instanceof Error\<close> is false).
\<close>

datatype throwable = Error string | NonError

datatype errorType = REJECTED | SDK_ERROR | INSUFFICIENT | GENERAL | UNKNOWN

record parsedError =
  type :: errorType
  message :: string

definition parseError :: "throwable \<Rightarrow> parsedError" where
  "parseError error =
     (case error of
        Error msg \<Rightarrow>
          if includes_str msg ''rejected'' \<or> includes_str msg ''denied''
          then \<lparr>type = REJECTED, message = ''Transaction rejected by user''\<rparr>
          else if includes_str msg ''errUnknownField'' \<or> includes_str msg ''tx parse error''
                  \<or> includes_str msg ''Broadcasting transaction failed''
          then \<lparr>type = SDK_ERROR, message = ''SDK error - check balances and try again''\<rparr>
          else if includes_str msg ''insufficient''
          then \<lparr>type = INSUFFICIENT, message = ''Insufficient balance''\<rparr>
          else \<lparr>type = GENERAL, message = msg\<rparr>
      | NonError \<Rightarrow> \<lparr>type = UNKNOWN, message = ''Unknown error occurred''\<rparr>)"

section \<open>The supported-chains catalog and the resolver\<close>

record TokenInfo =
  contractAddress :: string
  symbol :: string
  name :: string
  decimals :: nat

record ChainInfo =
  chainId :: nat
  tokens :: "TokenInfo list"

text \<open>
  The \<open>for\<close> loop of \<open>findTokenWithChain\<close> over the chains, with \<open>Array.prototype.find\<close>
  on each chain's token list. The first chain holding a matching token returns.
\<close>

fun findInChains :: "ChainInfo list \<Rightarrow> string \<Rightarrow> (ChainInfo \<times> TokenInfo) option" where
  "findInChains [] address = None"
| "findInChains (chain # rest) address =
     (case List.find (\<lambda>t. toLowerCase (contractAddress t) = toLowerCase address) (tokens chain) of
        Some token \<Rightarrow> Some (chain, token)
      | None \<Rightarrow> findInChains rest address)"

text \<open>
  \<open>supportedChainsAndTokens\<close> is \<open>None\<close> while the provider has not loaded it
  (\<open>null\<close>; an empty array is truthy and is \<open>Some []\<close>).
\<close>

definition findTokenWithChain ::
  "ChainInfo list option \<Rightarrow> string \<Rightarrow> throwable + (ChainInfo \<times> TokenInfo)" where
  "findTokenWithChain supported address =
     (case supported of
        None \<Rightarrow> Inl (Error ''Supported chains and tokens not loaded'')
      | Some catalog \<Rightarrow>
          (case findInChains catalog address of
             Some found \<Rightarrow> Inr found
           | None \<Rightarrow> Inl (Error (''Token not found for address: '' @ address))))"

section \<open>The collaborators of the hook\<close>

text \<open>
  Functions and tables that the hook imports and that are not part of the repository are
  parameters of the model: \<open>parseUnits\<close> and \<open>encodeFunctionData\<close> (viem),
  \<open>marketsData[market].addresses.LENDING_POOL\<close>, \<open>CHAIN_METADATA\<close>, the SDK's formatting
  utilities and \<open>getFiatValue\<close>. A JavaScript \<open>number\<close> is a value of the type parameter
  \<open>'n\<close>; the only arithmetic the hook does on it is one addition and one \<open>toString\<close>,
  both parameters as well.
\<close>

record NativeCurrency =
  nativeSymbol :: string
  nativeDecimals :: nat

record 'n externals =
  parseUnits :: "string \<Rightarrow> nat \<Rightarrow> throwable + int"
  encodeFunctionData :: "string \<Rightarrow> int \<Rightarrow> string \<Rightarrow> nat \<Rightarrow> string"
  LENDING_POOL :: "string \<Rightarrow> string"
  CHAIN_METADATA :: "nat \<Rightarrow> NativeCurrency option"
  formatTokenBalance :: "string \<Rightarrow> string \<Rightarrow> nat \<Rightarrow> string"
  formatUnits :: "string \<Rightarrow> nat \<Rightarrow> string"
  parseFloat :: "string \<Rightarrow> 'n"
  getFiatValue :: "'n \<Rightarrow> string \<Rightarrow> 'n"
  numberZero :: 'n
  numberAdd :: "'n \<Rightarrow> 'n \<Rightarrow> 'n"
  numberToString :: "'n \<Rightarrow> string"

text \<open>
  What \<open>useNexus\<close> and \<open>useAccount\<close> give the hook: whether the SDK object is there, the
  wallet address (\<open>None\<close> when no wallet is connected) and the catalog.
\<close>

record 'n hookContext = "'n externals" +
  nexusSDK :: bool
  address :: "string option"
  supportedChainsAndTokens :: "ChainInfo list option"

text \<open>JavaScript truthiness of an optional string: \<open>undefined\<close> and \<open>''\<close> are falsy.\<close>

fun truthy :: "string option \<Rightarrow> bool" where
  "truthy None = False"
| "truthy (Some s) = (s \<noteq> [])"

section \<open>Building the execute parameters\<close>

record TokenApproval =
  approvalToken :: string
  approvalAmount :: int
  spender :: string

record ExecuteParams =
  to :: string
  data :: string
  val :: int
  tokenApproval :: TokenApproval

text \<open>
  \<open>buildExecuteParams\<close>. The check \<open>!tokenDeets || !tokenDeets.token\<close> after the lookup
  never holds, since \<open>findTokenWithChain\<close> returns an object with a token or throws; the
  model has no branch for it.
\<close>

definition buildExecuteParams ::
  "('n, 'x) hookContext_scheme \<Rightarrow> string \<Rightarrow> string \<Rightarrow> string \<Rightarrow> throwable + ExecuteParams" where
  "buildExecuteParams ctx depositAmount assetAddress market =
     (case (if truthy (address ctx) then address ctx else None) of
        None \<Rightarrow> Inl (Error ''Wallet not connected'')
      | Some wallet \<Rightarrow>
          (case findTokenWithChain (supportedChainsAndTokens ctx) assetAddress of
             Inl e \<Rightarrow> Inl e
           | Inr tokenDeets \<Rightarrow>
               (case parseUnits ctx depositAmount (decimals (snd tokenDeets)) of
                  Inl e \<Rightarrow> Inl e
                | Inr amountWei \<Rightarrow>
                    Inr \<lparr>to = LENDING_POOL ctx market,
                         data = encodeFunctionData ctx assetAddress amountWei wallet 0,
                         val = 0,
                         tokenApproval =
                           \<lparr>approvalToken = symbol (snd tokenDeets),
                            approvalAmount = amountWei,
                            spender = LENDING_POOL ctx market\<rparr>\<rparr>)))"

record BridgeAndExecuteParams =
  paramToken :: string
  paramAmount :: int
  toChainId :: nat
  execute :: ExecuteParams
  waitForReceipt :: "bool option"
  receiptTimeout :: "nat option"

section \<open>The state of the hook\<close>

text \<open>
  Of the engine's results the model keeps the fields the hook reads: the gas fee of the
  execute simulation and the total fee of the bridge simulation, each absent when the
  engine reports no such leg; the transaction hash and the explorer URL of an execution.
\<close>

record BridgeAndExecuteSimulationResult =
  executeSimulation :: "string option"
  bridgeSimulation :: "string option"

record BridgeAndExecuteResult =
  executeTransactionHash :: "string option"
  executeExplorerUrl :: "string option"

record 'n SimulationResult =
  bridgeFee :: 'n
  executionGas :: string
  gasUsd :: 'n
  totalCost :: string
  destinationAmount :: string
  simulationRaw :: BridgeAndExecuteSimulationResult

record AaveDepositResult =
  success :: bool
  error :: "string option"
  txHash :: "string option"
  explorerUrl :: "string option"

datatype toast = ToastError string | ToastInfo string | ToastSuccess string "string option"

text \<open>
  The \<open>useState\<close> cells of the hook, and the toasts shown so far (the hook's only other
  effect, kept as a log).
\<close>

record 'n hookState =
  isLoading :: bool
  currentStep :: string
  simulation :: "'n SimulationResult option"
  isSimulating :: bool
  multiStepResult :: "BridgeAndExecuteSimulationResult option"
  toasts :: "toast list"

text \<open>
  An \<open>async\<close> function runs up to its \<open>await\<close> when it is called and the rest when the
  awaited promise settles. The first part either returns or leaves a call in flight; the
  call keeps what the closure captured.
\<close>

datatype ('r, 'c) started = Returned 'r | Awaiting 'c

record engineCall =
  callAmount :: string
  callChain :: ChainInfo
  callToken :: TokenInfo
  callParams :: BridgeAndExecuteParams

text \<open>
  The statements of the \<open>try\<close> block of \<open>simulateDeposit\<close> before the engine call, in
  the order of the source: the first one that throws ends the block.
\<close>

definition prepareSimulate ::
  "('n, 'x) hookContext_scheme \<Rightarrow> string \<Rightarrow> string \<Rightarrow> string \<Rightarrow> throwable + engineCall" where
  "prepareSimulate ctx depositAmount assetAddress market =
     (case findTokenWithChain (supportedChainsAndTokens ctx) assetAddress of
        Inl e \<Rightarrow> Inl e
      | Inr tokenDeets \<Rightarrow>
          (case buildExecuteParams ctx depositAmount assetAddress market of
             Inl e \<Rightarrow> Inl e
           | Inr executeParams \<Rightarrow>
               (case parseUnits ctx depositAmount (decimals (snd tokenDeets)) of
                  Inl e \<Rightarrow> Inl e
                | Inr amt \<Rightarrow>
                    Inr \<lparr>callAmount = depositAmount,
                         callChain = fst tokenDeets,
                         callToken = snd tokenDeets,
                         callParams =
                           \<lparr>paramToken = symbol (snd tokenDeets),
                            paramAmount = amt,
                            toChainId = chainId (fst tokenDeets),
                            execute = executeParams,
                            waitForReceipt = None,
                            receiptTimeout = None\<rparr>\<rparr>)))"

text \<open>The same for \<open>executeDeposit\<close>, which builds the parameters before it looks the token up.\<close>

definition prepareExecute ::
  "('n, 'x) hookContext_scheme \<Rightarrow> string \<Rightarrow> string \<Rightarrow> string \<Rightarrow> throwable + engineCall" where
  "prepareExecute ctx depositAmount assetAddress market =
     (case buildExecuteParams ctx depositAmount assetAddress market of
        Inl e \<Rightarrow> Inl e
      | Inr executeParams \<Rightarrow>
          (case findTokenWithChain (supportedChainsAndTokens ctx) assetAddress of
             Inl e \<Rightarrow> Inl e
           | Inr tokenDeets \<Rightarrow>
               (case parseUnits ctx depositAmount (decimals (snd tokenDeets)) of
                  Inl e \<Rightarrow> Inl e
                | Inr amt \<Rightarrow>
                    Inr \<lparr>callAmount = depositAmount,
                         callChain = fst tokenDeets,
                         callToken = snd tokenDeets,
                         callParams =
                           \<lparr>paramToken = symbol (snd tokenDeets),
                            paramAmount = amt,
                            toChainId = chainId (fst tokenDeets),
                            execute = executeParams,
                            waitForReceipt = Some True,
                            receiptTimeout = Some 300000\<rparr>\<rparr>)))"

section \<open>simulateDeposit\<close>

text \<open>The \<open>catch\<close> block of \<open>simulateDeposit\<close> followed by its \<open>finally\<close> block.\<close>

definition simulateCatch :: "throwable \<Rightarrow> ('n, 'x) hookState_scheme \<Rightarrow> ('n, 'x) hookState_scheme" where
  "simulateCatch e hs =
     hs\<lparr>toasts := toasts hs @ [ToastError (message (parseError e))],
        currentStep := [],
        isSimulating := False\<rparr>"

definition simulateDeposit_start ::
  "('n, 'x) hookContext_scheme \<Rightarrow> string \<Rightarrow> string \<Rightarrow> string \<Rightarrow> ('n, 'y) hookState_scheme
     \<Rightarrow> ('n, 'y) hookState_scheme \<times> (bool, engineCall) started" where
  "simulateDeposit_start ctx depositAmount assetAddress market hs =
     (if \<not> nexusSDK ctx \<or> \<not> truthy (address ctx)
      then (hs\<lparr>toasts := toasts hs @
                  [ToastError ''Nexus SDK not initialized or wallet not connected'']\<rparr>,
            Returned False)
      else
        let hs1 = hs\<lparr>isSimulating := True, currentStep := ''Simulating transaction...''\<rparr>
        in case prepareSimulate ctx depositAmount assetAddress market of
             Inl e \<Rightarrow> (simulateCatch e hs1, Returned False)
           | Inr call \<Rightarrow> (hs1, Awaiting call))"

text \<open>
  The rest of \<open>simulateDeposit\<close>, run when the engine's promise settles: rejected with a
  thrown value, or resolved with a result. Reading \<open>.nativeCurrency\<close> of a chain that
  \<open>CHAIN_METADATA\<close> does not list throws a \<open>TypeError\<close>, which is an \<open>Error\<close>.
\<close>

definition simulateDeposit_resume ::
  "('n, 'x) hookContext_scheme \<Rightarrow> engineCall \<Rightarrow> throwable + BridgeAndExecuteSimulationResult
     \<Rightarrow> ('n, 'y) hookState_scheme \<Rightarrow> ('n, 'y) hookState_scheme \<times> bool" where
  "simulateDeposit_resume ctx call outcome hs =
     (case outcome of
        Inl e \<Rightarrow> (simulateCatch e hs, False)
      | Inr sim \<Rightarrow>
          let hs1 = hs\<lparr>multiStepResult := Some sim\<rparr>
          in (case CHAIN_METADATA ctx (chainId (callChain call)) of
               None \<Rightarrow>
                 (simulateCatch
                    (Error ''Cannot read properties of undefined (reading 'nativeCurrency')'') hs1,
                  False)
             | Some native \<Rightarrow>
                 (case executeSimulation sim of
                    None \<Rightarrow>
                      (hs1\<lparr>toasts := toasts hs1 @
                              [ToastError ''Simulation failed - check console for details''],
                           currentStep := [],
                           isSimulating := False\<rparr>,
                       False)
                  | Some gasFee \<Rightarrow>
                      let hs2 = (if bridgeSimulation sim = None
                                 then hs1\<lparr>toasts := toasts hs1 @
                                   [ToastInfo ''No bridging needed - funds already on destination chain'']\<rparr>
                                 else hs1);
                          gasFormatted = formatTokenBalance ctx gasFee
                                           (nativeSymbol native) (nativeDecimals native);
                          gasUnits = parseFloat ctx (formatUnits ctx gasFee (nativeDecimals native));
                          gasUsdV = getFiatValue ctx gasUnits (nativeSymbol native);
                          bridgeUsd = (case bridgeSimulation sim of
                                         None \<Rightarrow> numberZero ctx
                                       | Some bridgeFeeTotal \<Rightarrow>
                                           getFiatValue ctx (parseFloat ctx bridgeFeeTotal)
                                             (name (callToken call)))
                      in (hs2\<lparr>simulation := Some
                                \<lparr>bridgeFee = bridgeUsd,
                                 executionGas = gasFormatted,
                                 gasUsd = gasUsdV,
                                 totalCost = numberToString ctx (numberAdd ctx bridgeUsd gasUsdV),
                                 destinationAmount = callAmount call,
                                 simulationRaw = sim\<rparr>,
                              currentStep := [],
                              isSimulating := False\<rparr>,
                          True))))"

section \<open>executeDeposit\<close>

definition executeDeposit_start ::
  "('n, 'x) hookContext_scheme \<Rightarrow> string \<Rightarrow> string \<Rightarrow> string \<Rightarrow> ('n, 'y) hookState_scheme
     \<Rightarrow> ('n, 'y) hookState_scheme \<times> (AaveDepositResult, engineCall) started" where
  "executeDeposit_start ctx depositAmount assetAddress market hs =
     (if \<not> nexusSDK ctx \<or> \<not> truthy (address ctx)
      then (hs, Returned \<lparr>success = False, error = Some ''SDK not initialized'',
                          txHash = None, explorerUrl = None\<rparr>)
      else
        let hs1 = hs\<lparr>isLoading := True, currentStep := ''Preparing transaction...''\<rparr>
        in case prepareExecute ctx depositAmount assetAddress market of
             Inl e \<Rightarrow>
               (hs1\<lparr>currentStep := [],
                    toasts := toasts hs1 @ [ToastError (message (parseError e))],
                    isLoading := False\<rparr>,
                Returned \<lparr>success = False, error = Some (message (parseError e)),
                          txHash = None, explorerUrl = None\<rparr>)
           | Inr call \<Rightarrow> (hs1\<lparr>currentStep := ''Initiating bridge...''\<rparr>, Awaiting call))"

definition executeDeposit_resume ::
  "engineCall \<Rightarrow> throwable + BridgeAndExecuteResult
     \<Rightarrow> ('n, 'y) hookState_scheme \<Rightarrow> ('n, 'y) hookState_scheme \<times> AaveDepositResult" where
  "executeDeposit_resume call outcome hs =
     (case outcome of
        Inl e \<Rightarrow>
          (hs\<lparr>currentStep := [],
              toasts := toasts hs @ [ToastError (message (parseError e))],
              isLoading := False\<rparr>,
           \<lparr>success = False, error = Some (message (parseError e)),
            txHash = None, explorerUrl = None\<rparr>)
      | Inr result \<Rightarrow>
          if truthy (executeTransactionHash result)
          then
            (hs\<lparr>currentStep := [],
                toasts := toasts hs @
                  [ToastSuccess (''Successfully deposited '' @ callAmount call @ '' '' @
                                 name (callToken call) @ '' to AAVE!'')
                     (if truthy (executeExplorerUrl result) then executeExplorerUrl result else None)],
                isLoading := False\<rparr>,
             \<lparr>success = True, error = None,
              txHash = executeTransactionHash result,
              explorerUrl = executeExplorerUrl result\<rparr>)
          else
            (hs\<lparr>currentStep := [],
                toasts := toasts hs @ [ToastError ''Transaction failed to complete''],
                isLoading := False\<rparr>,
             \<lparr>success = False, error = Some ''No transaction hash returned'',
              txHash = None, explorerUrl = None\<rparr>))"

text \<open>
  The whole call, for an engine whose answer to the parameters is \<open>engine params\<close>:
  \<open>Inl\<close> when \<open>bridgeAndExecute\<close> rejects, \<open>Inr\<close> when it resolves.
\<close>

definition executeDeposit ::
  "('n, 'x) hookContext_scheme \<Rightarrow> string \<Rightarrow> string \<Rightarrow> string
     \<Rightarrow> (BridgeAndExecuteParams \<Rightarrow> throwable + BridgeAndExecuteResult)
     \<Rightarrow> ('n, 'y) hookState_scheme \<Rightarrow> ('n, 'y) hookState_scheme \<times> AaveDepositResult" where
  "executeDeposit ctx depositAmount assetAddress market engine hs =
     (case executeDeposit_start ctx depositAmount assetAddress market hs of
        (hs', Returned r) \<Rightarrow> (hs', r)
      | (hs', Awaiting call) \<Rightarrow> executeDeposit_resume call (engine (callParams call)) hs')"


section \<open>The modal: amount input, debounce timer, deliveries\<close>

text \<open>
  The regular expression \<open>/^\d*\.?\d*$/\<close> of \<open>handleChange\<close>: digits, at most one
  point, digits. After the longest run of leading digits the rest must be empty or a
  point followed by digits only.
\<close>

definition isDigit :: "char \<Rightarrow> bool" where
  "isDigit c = (c \<in> set ''0123456789'')"

definition amountPattern :: "string \<Rightarrow> bool" where
  "amountPattern v =
     (case dropWhile isDigit v of
        [] \<Rightarrow> True
      | c # rest \<Rightarrow> c = CHR ''.'' \<and> list_all isDigit rest)"

text \<open>
  What the component receives and does not change: the hook's context, its props, and
  the delay given to \<open>setTimeout\<close> (1000 in the first component of the file, 400 in the
  second one).
\<close>

record 'n props = "'n hookContext" +
  underlyingAsset :: string
  currentMarket :: string
  walletBalance :: string
  debounceMs :: nat

text \<open>
  A pending \<open>setTimeout\<close> callback. The callback is a closure of the render that armed
  it and reads that render's \<open>amount\<close> and \<open>isOpen\<close>.
\<close>

record timer =
  timerId :: nat
  deadline :: nat
  armedAmount :: string
  armedOpen :: bool

text \<open>
  The state of one component: the hook's cells, the component's own cells and refs (the
  two dropdown flags, which only the display reads, are left out), and the runtime the
  callbacks live in: the clock in milliseconds, the pending timers, the simulations
  awaiting the engine. \<open>simulateCalls\<close> logs the amount of every call of
  \<open>simulateDeposit\<close>.
\<close>

record 'n modal = "'n hookState" +
  isOpen :: bool
  amount :: string
  isDebouncing :: bool
  amountRef :: string
  timerRef :: "nat option"
  prevSimulationRef :: "string option"
  isFirstRenderRef :: bool
  now :: nat
  timers :: "timer list"
  nextTimer :: nat
  inFlight :: "engineCall list"
  simulateCalls :: "string list"

text \<open>\<open>if (timerRef.current) clearTimeout(timerRef.current)\<close>; timer ids are positive.\<close>

definition clearTimer :: "'n modal \<Rightarrow> 'n modal" where
  "clearTimer s =
     (case timerRef s of
        None \<Rightarrow> s
      | Some i \<Rightarrow> s\<lparr>timers := filter (\<lambda>t. timerId t \<noteq> i) (timers s)\<rparr>)"

definition debouncedSimulation :: "'n props \<Rightarrow> 'n modal \<Rightarrow> 'n modal" where
  "debouncedSimulation p s =
     (if amount s \<noteq> [] \<and> amount s \<noteq> ''0'' \<and> prevSimulationRef s \<noteq> Some (amount s)
      then
        let s1 = clearTimer (s\<lparr>isDebouncing := True\<rparr>)
        in s1\<lparr>timerRef := Some (nextTimer s1),
              timers := timers s1 @
                [\<lparr>timerId = nextTimer s1, deadline = now s1 + debounceMs p,
                  armedAmount = amount s1, armedOpen = isOpen s1\<rparr>],
              nextTimer := Suc (nextTimer s1)\<rparr>
      else s)"

text \<open>
  The effects of one render, in React's order: the cleanup of the debounce effect, then
  the three effect bodies as declared. The debounce effect depends on
  \<open>debouncedSimulation\<close>, which depends on \<open>simulateDeposit\<close>, a new function in every
  render: the effect runs after every render. (Its first run after mounting has no
  cleanup to call; \<open>timerRef\<close> is still empty then, and the cleanup modelled here does
  nothing.) The last effect runs when \<open>isOpen\<close> has changed.
\<close>

definition effects :: "'n props \<Rightarrow> bool \<Rightarrow> 'n modal \<Rightarrow> 'n modal" where
  "effects p openChanged s =
     (let s1 = (if isFirstRenderRef s then s else clearTimer s);
          s2 = s1\<lparr>amountRef := amount s1\<rparr>;
          s3 = (if isFirstRenderRef s2 then s2\<lparr>isFirstRenderRef := False\<rparr>
                else debouncedSimulation p s2)
      in if openChanged \<and> \<not> isOpen s3
         then (clearTimer s3)\<lparr>timerRef := None, prevSimulationRef := None, isDebouncing := False\<rparr>
         else s3)"

text \<open>
  The \<open>useState\<close> cells; React renders again when a handler has changed one. Cells are
  compared by value here; React compares objects by identity, so that storing a result
  equal to the stored one counts as a change there and not here.
\<close>

definition cells :: "'n modal \<Rightarrow>
    bool \<times> string \<times> bool \<times> bool \<times> string \<times> 'n SimulationResult option \<times> bool
      \<times> BridgeAndExecuteSimulationResult option" where
  "cells s = (isOpen s, amount s, isDebouncing s, isLoading s, currentStep s, simulation s,
              isSimulating s, multiStepResult s)"

text \<open>
  A render with its effects; an effect that has changed a cell (\<open>setIsDebouncing\<close>)
  causes one more render, whose effects change no cell.
\<close>

definition render :: "'n props \<Rightarrow> bool \<Rightarrow> 'n modal \<Rightarrow> 'n modal" where
  "render p openChanged s =
     (let s' = effects p openChanged s
      in if cells s' = cells s then s' else effects p False s')"

definition rerender :: "'n props \<Rightarrow> 'n modal \<Rightarrow> 'n modal \<Rightarrow> 'n modal" where
  "rerender p before s =
     (if cells s = cells before then s else render p (isOpen s \<noteq> isOpen before) s)"

definition handleChange :: "'n props \<Rightarrow> string \<Rightarrow> 'n modal \<Rightarrow> 'n modal" where
  "handleChange p v s =
     (if v = [] \<or> amountPattern v then rerender p s (s\<lparr>amount := v\<rparr>) else s)"

text \<open>
  The handlers are those of the first component of the file. The second one has the same
  \<open>handleChange\<close>; its \<open>handleSetMax\<close> stores \<open>(Number(walletBalance) * 0.9).toString()\<close>,
  a floating-point value, where the first stores \<open>walletBalance\<close> itself.
\<close>

definition handleSetMax :: "'n props \<Rightarrow> 'n modal \<Rightarrow> 'n modal" where
  "handleSetMax p s = rerender p s (s\<lparr>amount := walletBalance p\<rparr>)"

definition handleOpen :: "'n props \<Rightarrow> 'n modal \<Rightarrow> 'n modal" where
  "handleOpen p s = rerender p s (s\<lparr>isOpen := True, amount := []\<rparr>)"

definition handleClose :: "'n props \<Rightarrow> 'n modal \<Rightarrow> 'n modal" where
  "handleClose p s =
     rerender p s ((clearTimer (s\<lparr>isOpen := False, amount := []\<rparr>))\<lparr>timerRef := None\<rparr>)"

text \<open>
  The callback given to \<open>setTimeout\<close>, for the timer \<open>t\<close> that has come due. The call of
  \<open>simulateDeposit\<close> is not awaited: the marker \<open>prevSimulationRef\<close> is written as soon
  as the call has started.
\<close>

definition fire :: "'n props \<Rightarrow> timer \<Rightarrow> 'n modal \<Rightarrow> 'n modal" where
  "fire p t s =
     (let s0 = s\<lparr>timers := filter (\<lambda>u. timerId u \<noteq> timerId t) (timers s)\<rparr>
      in if armedOpen t \<and> amountRef s0 = armedAmount t
         then
           let (s1, r) = simulateDeposit_start p (armedAmount t) (underlyingAsset p)
                           (currentMarket p) s0;
               s2 = s1\<lparr>simulateCalls := simulateCalls s1 @ [armedAmount t],
                       inFlight := (case r of Returned b \<Rightarrow> inFlight s1
                                    | Awaiting call \<Rightarrow> inFlight s1 @ [call])\<rparr>
           in rerender p s0 (s2\<lparr>prevSimulationRef := Some (armedAmount t), isDebouncing := False\<rparr>)
         else s0)"

text \<open>
  One millisecond passes; the timers that have come due fire in the order they were set,
  unless an earlier callback of the same instant has cleared them.
\<close>

definition fireIfPending :: "'n props \<Rightarrow> timer \<Rightarrow> 'n modal \<Rightarrow> 'n modal" where
  "fireIfPending p t s = (if t \<in> set (timers s) then fire p t s else s)"

definition tick :: "'n props \<Rightarrow> 'n modal \<Rightarrow> 'n modal" where
  "tick p s =
     (let s1 = s\<lparr>now := Suc (now s)\<rparr>
      in fold (fireIfPending p) (filter (\<lambda>t. deadline t \<le> now s1) (timers s1)) s1)"

primrec elapse :: "'n props \<Rightarrow> nat \<Rightarrow> 'n modal \<Rightarrow> 'n modal" where
  "elapse p 0 s = s"
| "elapse p (Suc n) s = elapse p n (tick p s)"

text \<open>
  The engine settles the \<open>i\<close>-th simulation in flight, and the rest of that call of
  \<open>simulateDeposit\<close> runs.
\<close>

definition deliver ::
  "'n props \<Rightarrow> nat \<Rightarrow> throwable + BridgeAndExecuteSimulationResult \<Rightarrow> 'n modal \<Rightarrow> 'n modal" where
  "deliver p i outcome s =
     (if i < length (inFlight s)
      then
        let s0 = s\<lparr>inFlight := take i (inFlight s) @ drop (Suc i) (inFlight s)\<rparr>
        in rerender p s0 (fst (simulateDeposit_resume p (inFlight s ! i) outcome s0))
      else s)"

datatype event =
    Open
  | Close
  | Change string
  | SetMax
  | Elapse nat
  | Deliver nat "throwable + BridgeAndExecuteSimulationResult"

fun step :: "'n props \<Rightarrow> 'n modal \<Rightarrow> event \<Rightarrow> 'n modal" where
  "step p s Open = handleOpen p s"
| "step p s Close = handleClose p s"
| "step p s (Change v) = handleChange p v s"
| "step p s SetMax = handleSetMax p s"
| "step p s (Elapse n) = elapse p n s"
| "step p s (Deliver i outcome) = deliver p i outcome s"

definition run :: "'n props \<Rightarrow> event list \<Rightarrow> 'n modal \<Rightarrow> 'n modal" where
  "run p es s = foldl (step p) s es"

text \<open>The component once mounted: closed, nothing entered, every effect has run once.\<close>

definition mounted :: "'n modal" where
  "mounted =
     \<lparr>isLoading = False, currentStep = [], simulation = None, isSimulating = False,
      multiStepResult = None, toasts = [],
      isOpen = False, amount = [], isDebouncing = False, amountRef = [], timerRef = None,
      prevSimulationRef = None, isFirstRenderRef = False, now = 0, timers = [],
      nextTimer = 1, inFlight = [], simulateCalls = []\<rparr>"

section \<open>Notions used in the statements\<close>

text \<open>What "the message contains the signature" means, independently of the search loop.\<close>

definition contains :: "string \<Rightarrow> string \<Rightarrow> bool" where
  "contains s sub = (\<exists>pre post. s = pre @ sub @ post)"






text \<open>
  The amount, the amounts the pending timers were armed for and the amounts
  \<open>simulateDeposit\<close> was called with all match the pattern of the input handler.
\<close>

definition wellFormed :: "'n modal \<Rightarrow> bool" where
  "wellFormed s =
     (amountPattern (amount s)
      \<and> (\<forall>t \<in> set (timers s). amountPattern (armedAmount t))
      \<and> (\<forall>a \<in> set (simulateCalls s). amountPattern a))"

section \<open>Concrete inputs\<close>

text \<open>
  A context with one chain and one token, whose collaborators are the simplest functions
  of their types, and two tokens whose addresses differ in letter case only.
\<close>

definition usdc :: TokenInfo where
  "usdc = \<lparr>contractAddress = ''0xAf88'', symbol = ''USDC'', name = ''USD Coin'', decimals = 6\<rparr>"

definition demo :: "int props" where
  "demo =
     \<lparr>parseUnits = (\<lambda>v d. Inr 0),
      encodeFunctionData = (\<lambda>a n w r. []),
      LENDING_POOL = (\<lambda>m. ''0xPool''),
      CHAIN_METADATA = (\<lambda>c. Some \<lparr>nativeSymbol = ''ETH'', nativeDecimals = 18\<rparr>),
      formatTokenBalance = (\<lambda>g s d. g),
      formatUnits = (\<lambda>g d. g),
      parseFloat = (\<lambda>s. 0),
      getFiatValue = (\<lambda>q s. q),
      numberZero = 0,
      numberAdd = (+),
      numberToString = (\<lambda>n. []),
      nexusSDK = True,
      address = Some ''0xWallet'',
      supportedChainsAndTokens = Some [\<lparr>chainId = 42161, tokens = [usdc]\<rparr>],
      underlyingAsset = ''0xaf88'',
      currentMarket = ''proto_arbitrum_v3'',
      walletBalance = ''1e-7'',
      debounceMs = 1000\<rparr>"

text \<open>An engine whose \<open>bridgeAndExecute\<close> rejects with \<open>e\<close>, and one that resolves with \<open>r\<close>.\<close>

definition engineThrows ::
  "throwable \<Rightarrow> BridgeAndExecuteParams \<Rightarrow> throwable + BridgeAndExecuteResult" where
  "engineThrows e params = Inl e"

definition engineReturns ::
  "BridgeAndExecuteResult \<Rightarrow> BridgeAndExecuteParams \<Rightarrow> throwable + BridgeAndExecuteResult" where
  "engineReturns r params = Inr r"

text \<open>The call that \<open>simulateDeposit\<close> puts in flight in that context for the amount \<open>1\<close>.\<close>

definition demoCall :: engineCall where
  "demoCall =
     \<lparr>callAmount = ''1'',
      callChain = \<lparr>chainId = 42161, tokens = [usdc]\<rparr>,
      callToken = usdc,
      callParams =
        \<lparr>paramToken = ''USDC'', paramAmount = 0, toChainId = 42161,
         execute =
           \<lparr>to = ''0xPool'', data = [], val = 0,
            tokenApproval =
              \<lparr>approvalToken = ''USDC'', approvalAmount = 0, spender = ''0xPool''\<rparr>\<rparr>,
         waitForReceipt = None, receiptTimeout = None\<rparr>\<rparr>"

definition tokA :: TokenInfo where
  "tokA = \<lparr>contractAddress = ''0xAB'', symbol = ''USDC'', name = ''USD Coin'', decimals = 6\<rparr>"


section \<open>Properties of the strings\<close>

lemma startsWith_iff: "startsWith s sub \<longleftrightarrow> (\<exists>post. s = sub @ post)"
  by (induction s sub rule: startsWith.induct) auto

lemma includes_iff: "includes_str s sub \<longleftrightarrow> contains s sub"
proof (induction s)
  case Nil
  show ?case by (simp add: contains_def)
next
  case (Cons d s)
  have "contains (d # s) sub \<longleftrightarrow> (\<exists>post. d # s = sub @ post) \<or> contains s sub"
  proof
    assume "contains (d # s) sub"
    then obtain pre post where eq: "d # s = pre @ sub @ post"
      unfolding contains_def by blast
    show "(\<exists>post. d # s = sub @ post) \<or> contains s sub"
    proof (cases pre)
      case Nil
      with eq show ?thesis by auto
    next
      case (Cons e pre')
      with eq have "s = pre' @ sub @ post" by simp
      then show ?thesis unfolding contains_def by blast
    qed
  next
    assume "(\<exists>post. d # s = sub @ post) \<or> contains s sub"
    then show "contains (d # s) sub"
    proof
      assume "\<exists>post. d # s = sub @ post"
      then obtain post where "d # s = [] @ sub @ post" by auto
      then show ?thesis unfolding contains_def by blast
    next
      assume "contains s sub"
      then obtain pre post where "s = pre @ sub @ post"
        unfolding contains_def by blast
      then have "d # s = (d # pre) @ sub @ post" by simp
      then show ?thesis unfolding contains_def by blast
    qed
  qed
  with Cons show ?case by (simp add: startsWith_iff)
qed

section \<open>The error classifier\<close>

text \<open>
  C4. \<open>parseError\<close> is a function of the thrown value, deciding in this order: a message
  containing \<open>rejected\<close> or \<open>denied\<close> is classified \<open>REJECTED\<close>; otherwise one
  containing \<open>errUnknownField\<close>, \<open>tx parse error\<close> or \<open>Broadcasting transaction failed\<close>
  is \<open>SDK_ERROR\<close>; otherwise one containing \<open>insufficient\<close> is \<open>INSUFFICIENT\<close>;
  otherwise the error is \<open>GENERAL\<close> and keeps its message as it is; a thrown value that
  is not an \<open>Error\<close> is \<open>UNKNOWN\<close>.
\<close>

theorem parseError_priority:
  "(contains msg ''rejected'' \<or> contains msg ''denied''
      \<longrightarrow> type (parseError (Error msg)) = REJECTED)
   \<and> (\<not> contains msg ''rejected'' \<and> \<not> contains msg ''denied''
        \<and> (contains msg ''errUnknownField'' \<or> contains msg ''tx parse error''
             \<or> contains msg ''Broadcasting transaction failed'')
      \<longrightarrow> type (parseError (Error msg)) = SDK_ERROR)
   \<and> (\<not> contains msg ''rejected'' \<and> \<not> contains msg ''denied''
        \<and> \<not> contains msg ''errUnknownField'' \<and> \<not> contains msg ''tx parse error''
        \<and> \<not> contains msg ''Broadcasting transaction failed''
        \<and> contains msg ''insufficient''
      \<longrightarrow> type (parseError (Error msg)) = INSUFFICIENT)
   \<and> (\<not> contains msg ''rejected'' \<and> \<not> contains msg ''denied''
        \<and> \<not> contains msg ''errUnknownField'' \<and> \<not> contains msg ''tx parse error''
        \<and> \<not> contains msg ''Broadcasting transaction failed''
        \<and> \<not> contains msg ''insufficient''
      \<longrightarrow> parseError (Error msg) = \<lparr>type = GENERAL, message = msg\<rparr>)
   \<and> type (parseError NonError) = UNKNOWN"
  by (simp add: parseError_def includes_iff)

theorem parseError_priority_witness:
  "type (parseError (Error ''user rejected the request: insufficient'')) = REJECTED
   \<and> type (parseError (Error ''tx parse error: insufficient fee'')) = SDK_ERROR
   \<and> type (parseError (Error ''insufficient funds for gas'')) = INSUFFICIENT
   \<and> parseError (Error ''execution reverted'') = \<lparr>type = GENERAL, message = ''execution reverted''\<rparr>"
  using parseError_priority [of "''user rejected the request: insufficient''"]
    parseError_priority [of "''tx parse error: insufficient fee''"]
    parseError_priority [of "''insufficient funds for gas''"]
    parseError_priority [of "''execution reverted''"]
  by (simp add: includes_iff [symmetric])

section \<open>The resolver\<close>

lemma findInChains_None:
  "findInChains cat a = None \<longleftrightarrow>
     (\<forall>c \<in> set cat. \<forall>t \<in> set (tokens c). toLowerCase (contractAddress t) \<noteq> toLowerCase a)"
proof (induction cat)
  case Nil
  show ?case by simp
next
  case (Cons d cat)
  show ?case
  proof (cases "List.find (\<lambda>t. toLowerCase (contractAddress t) = toLowerCase a) (tokens d)")
    case None
    then have "\<forall>t \<in> set (tokens d). toLowerCase (contractAddress t) \<noteq> toLowerCase a"
      by (simp add: find_None_iff)
    with None Cons.IH show ?thesis by simp
  next
    case (Some u)
    then have "u \<in> set (tokens d)" "toLowerCase (contractAddress u) = toLowerCase a"
      by (auto simp: find_Some_iff)
    then have "\<not> (\<forall>c \<in> set (d # cat). \<forall>t \<in> set (tokens c).
        toLowerCase (contractAddress t) \<noteq> toLowerCase a)" by auto
    with Some show ?thesis by simp
  qed
qed





text \<open>
  C9. The resolver throws \<open>Supported chains and tokens not loaded\<close> when the catalog is
  not there and \<open>Token not found for address: ...\<close> when no chain lists the address; the
  builder throws \<open>Wallet not connected\<close> when there is no wallet address. Each is a
  thrown \<open>Error\<close> with its own message; nothing is returned in its place.
\<close>

theorem fail_fast_reasons:
  "findTokenWithChain None a = Inl (Error ''Supported chains and tokens not loaded'')
   \<and> ((\<forall>c \<in> set cat. \<forall>t \<in> set (tokens c). toLowerCase (contractAddress t) \<noteq> toLowerCase a)
        \<longrightarrow> findTokenWithChain (Some cat) a = Inl (Error (''Token not found for address: '' @ a)))
   \<and> (\<not> truthy (address ctx)
        \<longrightarrow> buildExecuteParams ctx depositAmount assetAddress market = Inl (Error ''Wallet not connected''))"
  by (simp add: findTokenWithChain_def buildExecuteParams_def findInChains_None [symmetric])

theorem fail_fast_reasons_witness:
  "findTokenWithChain (Some [\<lparr>chainId = 1, tokens = [tokA]\<rparr>]) ''0xCD''
     = Inl (Error ''Token not found for address: 0xCD'')
   \<and> buildExecuteParams (demo\<lparr>address := None\<rparr>) ''1'' ''0xaf88'' ''proto_arbitrum_v3''
     = Inl (Error ''Wallet not connected'')"
  using fail_fast_reasons [of "''0xCD''" "[\<lparr>chainId = 1, tokens = [tokA]\<rparr>]" "demo\<lparr>address := None\<rparr>"
      "''1''" "''0xaf88''" "''proto_arbitrum_v3''"]
  by (simp add: toLowerCase_def lowerChar_def tokA_def)

section \<open>Evaluating the model\<close>

lemmas machine_defs = run_def handleOpen_def handleClose_def handleChange_def handleSetMax_def
  rerender_def render_def effects_def cells_def debouncedSimulation_def clearTimer_def
  fire_def deliver_def mounted_def Let_def amountPattern_def isDigit_def

lemmas hook_defs = simulateDeposit_start_def simulateDeposit_resume_def simulateCatch_def
  prepareSimulate_def prepareExecute_def buildExecuteParams_def findTokenWithChain_def toLowerCase_def lowerChar_def
  parseError_def

lemmas execute_defs = executeDeposit_def executeDeposit_start_def executeDeposit_resume_def
  engineThrows_def engineReturns_def

lemma demo_fields: "debounceMs demo = 1000" "nexusSDK demo" "address demo = Some ''0xWallet''"
  "underlyingAsset demo = ''0xaf88''" "currentMarket demo = ''proto_arbitrum_v3''"
  "walletBalance demo = ''1e-7''"
  "supportedChainsAndTokens demo = Some [\<lparr>chainId = 42161, tokens = [usdc]\<rparr>]"
  "parseUnits demo v d = Inr 0" "encodeFunctionData demo a n w r = []"
  "LENDING_POOL demo m = ''0xPool''"
  "CHAIN_METADATA demo c = Some \<lparr>nativeSymbol = ''ETH'', nativeDecimals = 18\<rparr>"
  "formatTokenBalance demo g s d = g" "formatUnits demo g d = g" "parseFloat demo s = 0"
  "getFiatValue demo q s = q" "numberZero demo = 0" "numberAdd demo x y = x + y"
  "numberToString demo x = []"
  by (simp_all add: demo_def)

section \<open>Time\<close>

lemma tick_idle:
  "\<forall>t \<in> set (timers s). Suc (now s) < deadline t \<Longrightarrow> tick p s = s\<lparr>now := Suc (now s)\<rparr>"
proof -
  assume a: "\<forall>t \<in> set (timers s). Suc (now s) < deadline t"
  then have "filter (\<lambda>t. deadline t \<le> Suc (now s)) (timers s) = []"
    by (auto simp: filter_empty_conv)
  then show ?thesis by (simp add: tick_def)
qed

lemma elapse_idle:
  "\<forall>t \<in> set (timers s). now s + n < deadline t \<Longrightarrow> elapse p n s = s\<lparr>now := now s + n\<rparr>"
proof (induction n arbitrary: s)
  case 0
  show ?case by simp
next
  case (Suc n)
  then have "tick p s = s\<lparr>now := Suc (now s)\<rparr>" by (intro tick_idle) auto
  moreover have "elapse p n (s\<lparr>now := Suc (now s)\<rparr>) = s\<lparr>now := Suc (now s)\<rparr>\<lparr>now := now (s\<lparr>now := Suc (now s)\<rparr>) + n\<rparr>"
    using Suc.prems by (intro Suc.IH) auto
  ultimately show ?case by simp
qed

lemma elapse_Suc_right: "elapse p (Suc n) s = tick p (elapse p n s)"
  by (induction n arbitrary: s) simp_all

lemma elapse_due:
  assumes "timers s = [t]" and "deadline t = now s + Suc n"
  shows "elapse p (Suc n) s = fire p t (s\<lparr>now := deadline t\<rparr>)"
proof -
  have "elapse p n s = s\<lparr>now := now s + n\<rparr>"
    using assms by (intro elapse_idle) simp
  then have "elapse p (Suc n) s = tick p (s\<lparr>now := now s + n\<rparr>)"
    by (simp only: elapse_Suc_right)
  also have "\<dots> = fire p t (s\<lparr>now := deadline t\<rparr>)"
    using assms by (simp add: tick_def fireIfPending_def)
  finally show ?thesis .
qed

lemma elapse_due_hd:
  "length (timers s) = 1 \<Longrightarrow> now s < deadline (hd (timers s))
   \<Longrightarrow> n = deadline (hd (timers s)) - now s
   \<Longrightarrow> elapse p n s = fire p (hd (timers s)) (s\<lparr>now := deadline (hd (timers s))\<rparr>)"
proof -
  assume a: "length (timers s) = 1" "now s < deadline (hd (timers s))"
    "n = deadline (hd (timers s)) - now s"
  from a(1) have t: "timers s = [hd (timers s)]"
    by (cases "timers s") simp_all
  from a(2,3) have "0 < n" by simp
  then obtain m where m1: "n = Suc m" by (cases n) auto
  with a(2,3) have m2: "deadline (hd (timers s)) = now s + Suc m" by simp
  note m = m1 m2
  show ?thesis unfolding m(1) by (rule elapse_due [OF t m(2)])
qed

section \<open>The outcome of an execution\<close>

text \<open>
  C5. When the SDK and the wallet are there, the parameters have been built and
  \<open>bridgeAndExecute\<close> resolves, \<open>executeDeposit\<close> returns \<open>success: false\<close> (with the error
  \<open>No transaction hash returned\<close>) if the result has no transaction hash, and
  \<open>success: true\<close> with the hash and the explorer URL of the result if it has one.
\<close>

theorem executeDeposit_hash:
  assumes "nexusSDK ctx" and "truthy (address ctx)"
    and "prepareExecute ctx depositAmount assetAddress market = Inr call"
    and "engine (callParams call) = Inr result"
  shows "snd (executeDeposit ctx depositAmount assetAddress market engine hs) =
     (if truthy (executeTransactionHash result)
      then \<lparr>success = True, error = None, txHash = executeTransactionHash result,
            explorerUrl = executeExplorerUrl result\<rparr>
      else \<lparr>success = False, error = Some ''No transaction hash returned'',
            txHash = None, explorerUrl = None\<rparr>)"
  using assms
  by (simp add: executeDeposit_def executeDeposit_start_def executeDeposit_resume_def Let_def)

lemma demo_prepare:
  "\<exists>call. prepareExecute demo ''1'' ''0xaf88'' ''proto_arbitrum_v3'' = Inr call"
  by (simp add: hook_defs demo_fields usdc_def)

theorem executeDeposit_hash_witness:
  "snd (executeDeposit demo ''1'' ''0xaf88'' ''proto_arbitrum_v3''
        (engineReturns \<lparr>executeTransactionHash = None, executeExplorerUrl = Some ''https://x''\<rparr>) mounted)
     = \<lparr>success = False, error = Some ''No transaction hash returned'', txHash = None, explorerUrl = None\<rparr>
   \<and> snd (executeDeposit demo ''1'' ''0xaf88'' ''proto_arbitrum_v3''
        (engineReturns \<lparr>executeTransactionHash = Some ''0xf00'', executeExplorerUrl = Some ''https://x''\<rparr>) mounted)
     = \<lparr>success = True, error = None, txHash = Some ''0xf00'', explorerUrl = Some ''https://x''\<rparr>"
proof -
  obtain call where c: "prepareExecute demo ''1'' ''0xaf88'' ''proto_arbitrum_v3'' = Inr call"
    using demo_prepare by blast
  have sdk: "nexusSDK demo" and w: "truthy (address demo)" by (simp_all add: demo_fields)
  show ?thesis
    using executeDeposit_hash [OF sdk w c, of "engineReturns \<lparr>executeTransactionHash = None, executeExplorerUrl = Some ''https://x''\<rparr>" _ mounted]
      executeDeposit_hash [OF sdk w c, of "engineReturns \<lparr>executeTransactionHash = Some ''0xf00'', executeExplorerUrl = Some ''https://x''\<rparr>" _ mounted]
    by (simp add: engineReturns_def)
qed

text \<open>
  C6, as the code has it. Whatever is thrown during an execute attempt, by the
  preparation of the parameters or by the engine, \<open>executeDeposit\<close> returns
  \<open>success: false\<close> with, as \<open>error\<close>, the message the classifier gives for the thrown
  value. \<open>AaveDepositResult\<close> has no field for the classifier's type.
\<close>

theorem executeDeposit_thrown:
  assumes "nexusSDK ctx" and "truthy (address ctx)"
    and "prepareExecute ctx depositAmount assetAddress market = Inl e
         \<or> (\<exists>call. prepareExecute ctx depositAmount assetAddress market = Inr call
               \<and> engine (callParams call) = Inl e)"
  shows "snd (executeDeposit ctx depositAmount assetAddress market engine hs) =
     \<lparr>success = False, error = Some (message (parseError e)), txHash = None, explorerUrl = None\<rparr>"
  using assms
  by (auto simp add: executeDeposit_def executeDeposit_start_def executeDeposit_resume_def Let_def)

theorem executeDeposit_thrown_witness:
  "snd (executeDeposit demo ''1'' ''0xaf88'' ''proto_arbitrum_v3''
        (engineThrows (Error ''User denied transaction signature'')) mounted)
     = \<lparr>success = False, error = Some ''Transaction rejected by user'', txHash = None, explorerUrl = None\<rparr>"
proof -
  obtain call where c: "prepareExecute demo ''1'' ''0xaf88'' ''proto_arbitrum_v3'' = Inr call"
    using demo_prepare by blast
  have sdk: "nexusSDK demo" and w: "truthy (address demo)" by (simp_all add: demo_fields)
  have "prepareExecute demo ''1'' ''0xaf88'' ''proto_arbitrum_v3'' = Inl (Error ''User denied transaction signature'')
         \<or> (\<exists>call. prepareExecute demo ''1'' ''0xaf88'' ''proto_arbitrum_v3'' = Inr call
               \<and> engineThrows (Error ''User denied transaction signature'') (callParams call)
                   = Inl (Error ''User denied transaction signature''))"
    using c by (simp add: engineThrows_def)
  from executeDeposit_thrown [OF sdk w this, of mounted]
  show ?thesis by (simp add: parseError_def)
qed

text \<open>
  C6 as stated fails: the outcome does not carry the kind. A thrown error classified
  \<open>INSUFFICIENT\<close> and one classified \<open>GENERAL\<close> give the same outcome.
\<close>

theorem executeDeposit_kind_counterexample:
  "snd (executeDeposit demo ''1'' ''0xaf88'' ''proto_arbitrum_v3''
        (engineThrows (Error ''insufficient funds'')) mounted)
   = snd (executeDeposit demo ''1'' ''0xaf88'' ''proto_arbitrum_v3''
        (engineThrows (Error ''Insufficient balance'')) mounted)
   \<and> type (parseError (Error ''insufficient funds'')) = INSUFFICIENT
   \<and> type (parseError (Error ''Insufficient balance'')) = GENERAL"
  by (simp add: execute_defs hook_defs demo_fields usdc_def)

section \<open>Failed simulations\<close>

text \<open>
  C8, as the code has it. No part of \<open>simulateDeposit\<close> run before the engine answers
  writes the summary or the multi-step result; an attempt that returns \<open>false\<close> leaves the
  summary as it was and resets the step and the simulating flag. When something is
  thrown, before the call or by the engine, the toast shows the classifier's message for
  it. When the engine resolves without an execute simulation, the toast shows a fixed
  message, and the engine's result has been stored as the multi-step result.
\<close>

theorem failed_simulation_keeps_summary:
  "(simulateDeposit_start ctx depositAmount assetAddress market hs = (hs', r)
      \<longrightarrow> simulation hs' = simulation hs \<and> multiStepResult hs' = multiStepResult hs)
   \<and> (nexusSDK ctx \<and> truthy (address ctx)
        \<and> prepareSimulate ctx depositAmount assetAddress market = Inl e
      \<longrightarrow> simulateDeposit_start ctx depositAmount assetAddress market hs
            = (hs\<lparr>toasts := toasts hs @ [ToastError (message (parseError e))],
                   currentStep := [], isSimulating := False\<rparr>, Returned False))
   \<and> (simulateDeposit_resume ctx call outcome hs = (hs'', False)
      \<longrightarrow> simulation hs'' = simulation hs \<and> \<not> isSimulating hs'' \<and> currentStep hs'' = [])
   \<and> (simulateDeposit_resume ctx call (Inl e) hs
        = (hs\<lparr>toasts := toasts hs @ [ToastError (message (parseError e))],
              currentStep := [], isSimulating := False\<rparr>, False))
   \<and> (executeSimulation sim = None \<and> CHAIN_METADATA ctx (chainId (callChain call)) = Some native
      \<longrightarrow> simulateDeposit_resume ctx call (Inr sim) hs
            = (hs\<lparr>multiStepResult := Some sim,
                   toasts := toasts hs @ [ToastError ''Simulation failed - check console for details''],
                   currentStep := [], isSimulating := False\<rparr>, False))"
  by (auto simp add: simulateDeposit_start_def simulateDeposit_resume_def simulateCatch_def Let_def
      split: sum.splits option.splits if_splits)

theorem failed_simulation_keeps_summary_witness:
  "prepareSimulate demo ''1'' ''0xaf88'' ''proto_arbitrum_v3'' = Inr demoCall
   \<and> simulateDeposit_resume demo demoCall (Inl (Error ''user rejected the request'')) mounted
       = (mounted\<lparr>toasts := [ToastError ''Transaction rejected by user'']\<rparr>, False)
   \<and> simulateDeposit_resume demo demoCall
         (Inr \<lparr>executeSimulation = None, bridgeSimulation = Some ''0.5''\<rparr>) mounted
       = (mounted\<lparr>multiStepResult := Some \<lparr>executeSimulation = None, bridgeSimulation = Some ''0.5''\<rparr>,
                  toasts := [ToastError ''Simulation failed - check console for details'']\<rparr>,
          False)"
  using failed_simulation_keeps_summary [where ctx = demo and call = demoCall and hs = mounted
      and e = "Error ''user rejected the request''"
      and sim = "\<lparr>executeSimulation = None, bridgeSimulation = Some ''0.5''\<rparr>"
      and native = "\<lparr>nativeSymbol = ''ETH'', nativeDecimals = 18\<rparr>"]
  by (simp add: hook_defs demo_fields usdc_def demoCall_def mounted_def)

text \<open>
  C8 as stated fails: a simulation that fails because the engine reports no execute
  simulation has populated the multi-step result, and its message is the fixed one.
\<close>

theorem failed_simulation_counterexample:
  "multiStepResult (run demo [Open, Change ''1'', Elapse 1000] mounted) = None
   \<and> multiStepResult (run demo [Open, Change ''1'', Elapse 1000,
        Deliver 0 (Inr \<lparr>executeSimulation = None, bridgeSimulation = Some ''0.5''\<rparr>)] mounted)
      = Some \<lparr>executeSimulation = None, bridgeSimulation = Some ''0.5''\<rparr>
   \<and> toasts (run demo [Open, Change ''1'', Elapse 1000,
        Deliver 0 (Inr \<lparr>executeSimulation = None, bridgeSimulation = Some ''0.5''\<rparr>)] mounted)
      = [ToastError ''Simulation failed - check console for details'']"
  by (simp add: machine_defs demo_fields hook_defs elapse_due_hd usdc_def)

section \<open>What a render changes\<close>



lemma effects_frame:
  "amount (effects p oc s) = amount s" "isOpen (effects p oc s) = isOpen s"
  "now (effects p oc s) = now s" "simulateCalls (effects p oc s) = simulateCalls s"
  "simulation (effects p oc s) = simulation s" "inFlight (effects p oc s) = inFlight s"
  "multiStepResult (effects p oc s) = multiStepResult s" "toasts (effects p oc s) = toasts s"
  "amountRef (effects p oc s) = amount s"
  "isFirstRenderRef (effects p oc s) = False"
  by (simp_all add: effects_def debouncedSimulation_def clearTimer_def Let_def split: option.splits)



lemma render_frame:
  "amount (render p oc s) = amount s" "isOpen (render p oc s) = isOpen s"
  "now (render p oc s) = now s" "simulateCalls (render p oc s) = simulateCalls s"
  "simulation (render p oc s) = simulation s" "inFlight (render p oc s) = inFlight s"
  "multiStepResult (render p oc s) = multiStepResult s" "toasts (render p oc s) = toasts s"
  "amountRef (render p oc s) = amount s"
  "isFirstRenderRef (render p oc s) = False"
  by (simp_all add: render_def Let_def effects_frame)




lemma rerender_frame:
  "amount (rerender p b s) = amount s" "isOpen (rerender p b s) = isOpen s"
  "now (rerender p b s) = now s" "simulateCalls (rerender p b s) = simulateCalls s"
  "simulation (rerender p b s) = simulation s" "inFlight (rerender p b s) = inFlight s"
  "multiStepResult (rerender p b s) = multiStepResult s" "toasts (rerender p b s) = toasts s"
  by (simp_all add: rerender_def render_frame)


lemma start_frame:
  "amount (fst (simulateDeposit_start ctx a b c s)) = amount s"
  "isOpen (fst (simulateDeposit_start ctx a b c s)) = isOpen s"
  "timers (fst (simulateDeposit_start ctx a b c s)) = timers s"
  "simulateCalls (fst (simulateDeposit_start ctx a b c s)) = simulateCalls s"
  "inFlight (fst (simulateDeposit_start ctx a b c s)) = inFlight s"
  "simulation (fst (simulateDeposit_start ctx a b c s)) = simulation s"
  by (simp_all add: simulateDeposit_start_def simulateCatch_def Let_def split: sum.splits)

lemma resume_frame:
  "amount (fst (simulateDeposit_resume ctx call outcome s)) = amount s"
  "isOpen (fst (simulateDeposit_resume ctx call outcome s)) = isOpen s"
  "timers (fst (simulateDeposit_resume ctx call outcome s)) = timers s"
  "simulateCalls (fst (simulateDeposit_resume ctx call outcome s)) = simulateCalls s"
  by (simp_all add: simulateDeposit_resume_def simulateCatch_def Let_def
      split: sum.splits option.splits)



section \<open>Debounce\<close>















section \<open>Deliveries\<close>

lemma prepareSimulate_amount:
  "prepareSimulate ctx a b c = Inr call \<Longrightarrow> callAmount call = a"
  by (auto simp: prepareSimulate_def split: sum.splits)

lemma start_awaiting:
  "simulateDeposit_start ctx a b c s = (s', Awaiting call) \<Longrightarrow> callAmount call = a"
  by (auto simp: simulateDeposit_start_def Let_def prepareSimulate_amount split: if_splits sum.splits)

lemma fire_inFlight:
  "c \<in> set (inFlight (fire p t s)) \<Longrightarrow> c \<in> set (inFlight s) \<or> callAmount c = armedAmount t"
proof (cases "armedOpen t \<and> amountRef s = armedAmount t")
  case False
  assume "c \<in> set (inFlight (fire p t s))"
  with False show ?thesis by (auto simp: fire_def Let_def)
next
  case True
  assume c: "c \<in> set (inFlight (fire p t s))"
  let ?s0 = "s\<lparr>timers := filter (\<lambda>u. timerId u \<noteq> timerId t) (timers s)\<rparr>"
  let ?st = "simulateDeposit_start p (armedAmount t) (underlyingAsset p) (currentMarket p) ?s0"
  have inf: "inFlight (fire p t s) =
      (case snd ?st of Returned b \<Rightarrow> inFlight (fst ?st) | Awaiting call \<Rightarrow> inFlight (fst ?st) @ [call])"
    using True by (simp add: fire_def Let_def split_def rerender_frame)
  show ?thesis
  proof (cases "snd ?st")
    case (Returned b)
    with c inf show ?thesis by (simp add: start_frame)
  next
    case (Awaiting call)
    then have "?st = (fst ?st, Awaiting call)" by (metis prod.collapse)
    then have "callAmount call = armedAmount t" by (rule start_awaiting)
    with c inf Awaiting show ?thesis by (auto simp: start_frame)
  qed
qed

text \<open>
  C1, as the code has it. A successful result of the engine is applied when it arrives,
  whatever the amount is then: the summary becomes one for the amount captured by the
  call, and the amount on display is not read. Every call the timer's callback puts in
  flight has captured the amount the timer was armed for. The one check against a stale
  amount is in that callback: it calls nothing when the modal was closed at arming or the
  amount is no longer the armed one.
\<close>

theorem delivery_applied_unconditionally:
  "(i < length (inFlight s) \<and> executeSimulation sim = Some gasFee
      \<and> CHAIN_METADATA p (chainId (callChain (inFlight s ! i))) = Some native
    \<longrightarrow> map_option destinationAmount (simulation (deliver p i (Inr sim) s))
          = Some (callAmount (inFlight s ! i))
        \<and> map_option simulationRaw (simulation (deliver p i (Inr sim) s)) = Some sim
        \<and> amount (deliver p i (Inr sim) s) = amount s)
   \<and> (\<forall>c \<in> set (inFlight (fire p t s)). c \<in> set (inFlight s) \<or> callAmount c = armedAmount t)
   \<and> (\<not> (armedOpen t \<and> amountRef s = armedAmount t)
        \<longrightarrow> simulateCalls (fire p t s) = simulateCalls s \<and> inFlight (fire p t s) = inFlight s)"
proof (intro conjI impI ballI)
  fix c assume "c \<in> set (inFlight (fire p t s))"
  then show "c \<in> set (inFlight s) \<or> callAmount c = armedAmount t" by (rule fire_inFlight)
next
  assume "\<not> (armedOpen t \<and> amountRef s = armedAmount t)"
  then show "simulateCalls (fire p t s) = simulateCalls s" by (auto simp add: fire_def Let_def)
next
  assume "\<not> (armedOpen t \<and> amountRef s = armedAmount t)"
  then show "inFlight (fire p t s) = inFlight s" by (auto simp add: fire_def Let_def)
next
  assume a: "i < length (inFlight s) \<and> executeSimulation sim = Some gasFee
      \<and> CHAIN_METADATA p (chainId (callChain (inFlight s ! i))) = Some native"
  let ?s0 = "s\<lparr>inFlight := take i (inFlight s) @ drop (Suc i) (inFlight s)\<rparr>"
  have d: "deliver p i (Inr sim) s =
      rerender p ?s0 (fst (simulateDeposit_resume p (inFlight s ! i) (Inr sim) ?s0))"
    using a by (simp add: deliver_def Let_def)
  show "map_option destinationAmount (simulation (deliver p i (Inr sim) s))
          = Some (callAmount (inFlight s ! i))"
    using a by (simp add: d rerender_frame simulateDeposit_resume_def Let_def)
  show "map_option simulationRaw (simulation (deliver p i (Inr sim) s)) = Some sim"
    using a by (simp add: d rerender_frame simulateDeposit_resume_def Let_def)
  show "amount (deliver p i (Inr sim) s) = amount s"
    by (simp add: d rerender_frame resume_frame)
qed

theorem delivery_applied_unconditionally_witness:
  "map_option destinationAmount (simulation (deliver demo 0
       (Inr \<lparr>executeSimulation = Some ''21000'', bridgeSimulation = None\<rparr>)
       (run demo [Open, Change ''1.23'', Elapse 1000, Change ''5''] mounted))) = Some ''1.23''"
  using delivery_applied_unconditionally [of 0 "run demo [Open, Change ''1.23'', Elapse 1000, Change ''5''] mounted"
      "\<lparr>executeSimulation = Some ''21000'', bridgeSimulation = None\<rparr>" "''21000''" demo
      "\<lparr>nativeSymbol = ''ETH'', nativeDecimals = 18\<rparr>"]
  by (simp add: machine_defs demo_fields hook_defs elapse_due_hd usdc_def)

text \<open>
  C1 as stated fails: a simulation launched for \<open>1.23\<close> that resolves after the amount
  has become \<open>5\<close> writes its summary.
\<close>

theorem stale_delivery_counterexample:
  "amount (run demo [Open, Change ''1.23'', Elapse 1000, Change ''5'',
        Deliver 0 (Inr \<lparr>executeSimulation = Some ''21000'', bridgeSimulation = None\<rparr>)] mounted) = ''5''
   \<and> map_option destinationAmount (simulation (run demo [Open, Change ''1.23'', Elapse 1000, Change ''5'',
        Deliver 0 (Inr \<lparr>executeSimulation = Some ''21000'', bridgeSimulation = None\<rparr>)] mounted))
      = Some ''1.23''"
  by (simp add: machine_defs demo_fields hook_defs elapse_due_hd usdc_def)

section \<open>The amount input\<close>

lemma amountPattern_iff:
  "amountPattern v \<longleftrightarrow>
     (\<exists>a b. (v = a @ b \<or> v = a @ ''.'' @ b) \<and> list_all isDigit a \<and> list_all isDigit b)"
proof
  assume p: "amountPattern v"
  have split: "v = takeWhile isDigit v @ dropWhile isDigit v" by simp
  have digits: "list_all isDigit (takeWhile isDigit v)"
    by (simp add: list_all_iff) (meson set_takeWhileD)
  show "\<exists>a b. (v = a @ b \<or> v = a @ ''.'' @ b) \<and> list_all isDigit a \<and> list_all isDigit b"
  proof (cases "dropWhile isDigit v")
    case Nil
    with split have "v = takeWhile isDigit v @ []" by simp
    moreover have "list_all isDigit []" by simp
    ultimately show ?thesis using digits by blast
  next
    case (Cons c rest)
    with p have c: "c = CHR ''.''" and r: "list_all isDigit rest"
      by (simp_all add: amountPattern_def)
    from split Cons c have "v = takeWhile isDigit v @ ''.'' @ rest" by simp
    with digits r show ?thesis by blast
  qed
next
  assume "\<exists>a b. (v = a @ b \<or> v = a @ ''.'' @ b) \<and> list_all isDigit a \<and> list_all isDigit b"
  then obtain a b where v: "v = a @ b \<or> v = a @ ''.'' @ b"
    and a: "list_all isDigit a" and b: "list_all isDigit b" by blast
  from a have da: "\<And>x. x \<in> set a \<Longrightarrow> isDigit x" by (simp add: list_all_iff)
  from b have db: "\<And>x. x \<in> set b \<Longrightarrow> isDigit x" by (simp add: list_all_iff)
  from v show "amountPattern v"
  proof
    assume "v = a @ b"
    then have "dropWhile isDigit v = []" using da db by auto
    then show ?thesis by (simp only: amountPattern_def list.case)
  next
    assume e: "v = a @ ''.'' @ b"
    have "dropWhile isDigit v = dropWhile isDigit (''.'' @ b)"
      unfolding e using da by (rule dropWhile_append2)
    then have "dropWhile isDigit v = CHR ''.'' # b" by (simp add: isDigit_def)
    then show ?thesis using b by (simp add: amountPattern_def)
  qed
qed

lemma wellFormed_clearTimer: "wellFormed s \<Longrightarrow> wellFormed (clearTimer s)"
  by (auto simp: wellFormed_def clearTimer_def split: option.splits)

lemma wellFormed_debounced: "wellFormed s \<Longrightarrow> wellFormed (debouncedSimulation p s)"
  by (auto simp: wellFormed_def debouncedSimulation_def clearTimer_def Let_def split: option.splits)

lemma wellFormed_effects: "wellFormed s \<Longrightarrow> wellFormed (effects p oc s)"
proof -
  assume w: "wellFormed s"
  let ?s1 = "if isFirstRenderRef s then s else clearTimer s"
  have w1: "wellFormed ?s1" using w by (simp add: wellFormed_clearTimer)
  let ?s2 = "?s1\<lparr>amountRef := amount ?s1\<rparr>"
  have w2: "wellFormed ?s2" using w1 by (simp add: wellFormed_def)
  let ?s3 = "if isFirstRenderRef ?s2 then ?s2\<lparr>isFirstRenderRef := False\<rparr>
             else debouncedSimulation p ?s2"
  have w3: "wellFormed ?s3"
  proof (cases "isFirstRenderRef ?s2")
    case True
    then show ?thesis using w2 by (simp add: wellFormed_def)
  next
    case False
    then show ?thesis using wellFormed_debounced [OF w2, of p] by simp
  qed
  have w4: "wellFormed ((clearTimer ?s3)\<lparr>timerRef := None, prevSimulationRef := None,
      isDebouncing := False\<rparr>)"
    using wellFormed_clearTimer [OF w3] by (simp add: wellFormed_def)
  have "effects p oc s = (if oc \<and> \<not> isOpen ?s3
      then (clearTimer ?s3)\<lparr>timerRef := None, prevSimulationRef := None, isDebouncing := False\<rparr>
      else ?s3)"
    by (simp add: effects_def Let_def)
  then show ?thesis using w3 w4 by simp
qed

lemma wellFormed_render: "wellFormed s \<Longrightarrow> wellFormed (render p oc s)"
  by (simp add: render_def Let_def wellFormed_effects)

lemma wellFormed_rerender: "wellFormed s \<Longrightarrow> wellFormed (rerender p b s)"
  by (simp add: rerender_def wellFormed_render)

lemma wellFormed_handleChange: "wellFormed s \<Longrightarrow> wellFormed (handleChange p v s)"
proof -
  assume w: "wellFormed s"
  show ?thesis
  proof (cases "v = [] \<or> amountPattern v")
    case True
    then have "amountPattern v" by (auto simp: amountPattern_def)
    with w have "wellFormed (s\<lparr>amount := v\<rparr>)" by (simp add: wellFormed_def)
    then show ?thesis using True by (simp add: handleChange_def wellFormed_rerender)
  next
    case False
    then show ?thesis using w by (simp add: handleChange_def)
  qed
qed

lemma wellFormed_handleOpen: "wellFormed s \<Longrightarrow> wellFormed (handleOpen p s)"
proof -
  assume w: "wellFormed s"
  then have "wellFormed (s\<lparr>isOpen := True, amount := []\<rparr>)"
    by (simp add: wellFormed_def amountPattern_def)
  then show ?thesis by (simp add: handleOpen_def wellFormed_rerender)
qed

lemma wellFormed_handleClose: "wellFormed s \<Longrightarrow> wellFormed (handleClose p s)"
proof -
  assume w: "wellFormed s"
  then have "wellFormed (s\<lparr>isOpen := False, amount := []\<rparr>)"
    by (simp add: wellFormed_def amountPattern_def)
  then have "wellFormed (clearTimer (s\<lparr>isOpen := False, amount := []\<rparr>))"
    by (rule wellFormed_clearTimer)
  then have "wellFormed ((clearTimer (s\<lparr>isOpen := False, amount := []\<rparr>))\<lparr>timerRef := None\<rparr>)"
    by (simp add: wellFormed_def)
  then show ?thesis by (simp add: handleClose_def wellFormed_rerender)
qed

lemma wellFormed_fire:
  assumes "wellFormed s" and "amountPattern (armedAmount t)"
  shows "wellFormed (fire p t s)"
proof -
  let ?s0 = "s\<lparr>timers := filter (\<lambda>u. timerId u \<noteq> timerId t) (timers s)\<rparr>"
  have w0: "wellFormed ?s0" using assms(1) by (simp add: wellFormed_def)
  let ?st = "simulateDeposit_start p (armedAmount t) (underlyingAsset p) (currentMarket p) ?s0"
  let ?s2 = "(fst ?st)\<lparr>simulateCalls := simulateCalls (fst ?st) @ [armedAmount t],
      inFlight := (case snd ?st of Returned b \<Rightarrow> inFlight (fst ?st)
                   | Awaiting call \<Rightarrow> inFlight (fst ?st) @ [call])\<rparr>"
  have "wellFormed (?s2\<lparr>prevSimulationRef := Some (armedAmount t), isDebouncing := False\<rparr>)"
    using w0 assms(2) by (simp add: wellFormed_def start_frame)
  then have "wellFormed (rerender p ?s0
      (?s2\<lparr>prevSimulationRef := Some (armedAmount t), isDebouncing := False\<rparr>))"
    by (rule wellFormed_rerender)
  then show ?thesis using w0 by (simp add: fire_def Let_def split_def)
qed

lemma wellFormed_fold_fire:
  "wellFormed s \<Longrightarrow> \<forall>t \<in> set ts. amountPattern (armedAmount t)
   \<Longrightarrow> wellFormed (fold (fireIfPending p) ts s)"
  by (induction ts arbitrary: s) (simp_all add: wellFormed_fire fireIfPending_def)

lemma wellFormed_tick: "wellFormed s \<Longrightarrow> wellFormed (tick p s)"
proof -
  assume w: "wellFormed s"
  then have w1: "wellFormed (s\<lparr>now := Suc (now s)\<rparr>)" by (simp add: wellFormed_def)
  have "\<forall>t \<in> set (filter (\<lambda>t. deadline t \<le> Suc (now s)) (timers s)). amountPattern (armedAmount t)"
    using w by (simp add: wellFormed_def)
  with w1 have "wellFormed (fold (fireIfPending p) (filter (\<lambda>t. deadline t \<le> Suc (now s)) (timers s))
      (s\<lparr>now := Suc (now s)\<rparr>))"
    by (rule wellFormed_fold_fire)
  then show ?thesis by (simp add: tick_def)
qed

lemma wellFormed_elapse: "wellFormed s \<Longrightarrow> wellFormed (elapse p n s)"
  by (induction n arbitrary: s) (simp_all add: wellFormed_tick)

lemma wellFormed_deliver: "wellFormed s \<Longrightarrow> wellFormed (deliver p i outcome s)"
proof -
  assume w: "wellFormed s"
  let ?s0 = "s\<lparr>inFlight := take i (inFlight s) @ drop (Suc i) (inFlight s)\<rparr>"
  have "wellFormed ?s0" using w by (simp add: wellFormed_def)
  then have "wellFormed (fst (simulateDeposit_resume p (inFlight s ! i) outcome ?s0))"
    by (simp add: wellFormed_def resume_frame)
  then have "wellFormed (rerender p ?s0 (fst (simulateDeposit_resume p (inFlight s ! i) outcome ?s0)))"
    by (rule wellFormed_rerender)
  then show ?thesis using w by (simp add: deliver_def Let_def)
qed

lemma wellFormed_step: "e \<noteq> SetMax \<Longrightarrow> wellFormed s \<Longrightarrow> wellFormed (step p s e)"
  by (cases e)
    (simp_all add: wellFormed_handleOpen wellFormed_handleClose wellFormed_handleChange
      wellFormed_elapse wellFormed_deliver)

lemma wellFormed_run: "SetMax \<notin> set es \<Longrightarrow> wellFormed s \<Longrightarrow> wellFormed (run p es s)"
proof (induction es arbitrary: s)
  case Nil
  then show ?case by (simp add: run_def)
next
  case (Cons e es)
  from Cons.prems have "wellFormed (step p s e)" by (intro wellFormed_step) auto
  with Cons.IH [of "step p s e"] Cons.prems(1) show ?case by (simp add: run_def)
qed

lemma wellFormed_mounted: "wellFormed mounted"
  by (simp add: wellFormed_def mounted_def amountPattern_def)

text \<open>
  C10, as the code has it. \<open>handleChange\<close> stores its input if it is empty or matches
  \<open>/^\d*\.?\d*$/\<close> (digits, at most one point, digits) and leaves the amount as it was
  otherwise. As long as the MAX button is not used, the amount and every amount
  \<open>simulateDeposit\<close> has been called with are empty or match the pattern.
\<close>

theorem amount_input_validated:
  "amount (handleChange p v s) = (if v = [] \<or> amountPattern v then v else amount s)
   \<and> (amountPattern v \<longleftrightarrow>
        (\<exists>a b. (v = a @ b \<or> v = a @ ''.'' @ b) \<and> list_all isDigit a \<and> list_all isDigit b))
   \<and> (SetMax \<notin> set es \<longrightarrow>
        amountPattern (amount (run p es mounted))
        \<and> (\<forall>a \<in> set (simulateCalls (run p es mounted)). amountPattern a))"
proof (intro conjI impI)
  show "amount (handleChange p v s) = (if v = [] \<or> amountPattern v then v else amount s)"
    by (simp add: handleChange_def rerender_frame)
  show "amountPattern v \<longleftrightarrow>
        (\<exists>a b. (v = a @ b \<or> v = a @ ''.'' @ b) \<and> list_all isDigit a \<and> list_all isDigit b)"
    by (rule amountPattern_iff)
  assume "SetMax \<notin> set es"
  then have w: "wellFormed (run p es mounted)"
    using wellFormed_mounted by (rule wellFormed_run)
  then show "amountPattern (amount (run p es mounted))" by (simp add: wellFormed_def)
  from w show "\<forall>a \<in> set (simulateCalls (run p es mounted)). amountPattern a"
    by (simp add: wellFormed_def)
qed

theorem amount_input_validated_witness:
  "amount (handleChange demo ''1.5'' mounted) = ''1.5''
   \<and> amount (handleChange demo ''1.5x'' mounted) = []
   \<and> simulateCalls (run demo [Open, Change ''1.5'', Change ''1.5x'', Elapse 1000] mounted) = [''1.5'']
   \<and> amountPattern ''1.5''"
  using amount_input_validated [of demo "''1.5''" mounted "[Open, Change ''1.5'', Change ''1.5x'', Elapse 1000]"]
    amount_input_validated [of demo "''1.5x''" mounted "[]"]
  by (simp add: machine_defs demo_fields hook_defs elapse_due_hd usdc_def)

text \<open>
  C10 as stated fails: the MAX button stores the wallet balance without the check, and
  \<open>simulateDeposit\<close> is called with it.
\<close>

theorem set_max_counterexample:
  "simulateCalls (run demo [Open, SetMax, Elapse 1000] mounted) = [''1e-7'']
   \<and> ''1e-7'' \<noteq> [] \<and> \<not> amountPattern ''1e-7''"
  by (simp add: machine_defs demo_fields hook_defs elapse_due_hd usdc_def)

end
